theory Spec2Isabelle
  imports Main
begin

section \<open>The memoizing decorator \<open>cache\<close> of \<open>huti/functions.py\<close>\<close>

text \<open>
  The development embeds the function \<open>cache\<close> (lines 314 to 447 of
  \<open>src/huti/functions.py\<close>) and its two inner functions, both named \<open>wrapper\<close> in the
  source: the one defined with \<open>def\<close> and the one defined with \<open>async def\<close>.

  Three collaborators of \<open>cache\<close> are libraries and not code of the repository. They are
  parameters of the model or are modelled by their documented behaviour:
  \<^item> \<open>jsonpickle.encode\<close> is the parameter \<open>encode\<close>: it returns a string or raises;
  \<^item> the \<open>structlog\<close> logger runs with the configuration of lines 410 and 411, which
    sets the logger factory only: the default processors render every event before it
    is written;
  \<^item> \<open>functools.wraps\<close> and \<open>inspect.iscoroutinefunction\<close> act on the attributes of a
    function object as the standard library documents them.

  Calls are run one after another, each to its end: an awaited call is the call followed
  by the run of its coroutine. Calls that overlap in time are outside the model.
\<close>

subsection \<open>Exceptions\<close>

text \<open>
  An exception is the name of its class, under the constructor \<open>Exception\<close> when the
  class derives from \<open>Exception\<close> and under \<open>BaseException\<close> when it does not. The clause
  \<open>except Exception\<close> of the source catches the former only; \<open>KeyboardInterrupt\<close>,
  \<open>SystemExit\<close>, \<open>GeneratorExit\<close> and \<open>asyncio.CancelledError\<close> derive from
  \<open>BaseException\<close> directly and pass through it.
\<close>

datatype pyexc =
    Exception string
  | BaseException string

fun isinstance_Exception :: "pyexc \<Rightarrow> bool" where
  "isinstance_Exception (Exception _) = True"
| "isinstance_Exception (BaseException _) = False"

subsection \<open>State\<close>

text \<open>
  \<open>memo\<close> is the dictionary \<open>memo = {}\<close> that \<open>cache\<close> creates and both wrappers close over;
  its keys are the strings \<open>jsonpickle.encode\<close> returns. \<open>log\<close> collects the events sent to
  the logger. \<open>world\<close> is everything the wrapped callable itself reads and writes; the
  dictionary \<open>memo\<close> is a local variable of \<open>cache\<close> and no part of it, so a callable that
  calls its own wrapper while it runs is outside the model. The argument type \<open>'a\<close> stands
  for the pair \<open>(args, kwargs)\<close> of one invocation, the value type \<open>'v\<close> for the reference
  to the object the callable returns.
\<close>

datatype level = Debug | Info | Warning | Error

text \<open>
  The values passed to the logger under a keyword: a text, an argument object, the
  function object (its identity plays no part here) or an exception object.
\<close>

datatype 'a logvalue = LogStr string | LogObj 'a | LogFunc | LogExc pyexc

record 'a log_event =
  ev_level :: level
  ev_event :: string
  ev_fields :: "(string \<times> 'a logvalue) list"

record ('a, 'v, 'w) cache_state =
  memo :: "string \<rightharpoonup> 'v"
  log :: "'a log_event list"
  world :: 'w

text \<open>
  The last of structlog's default processors, the console renderer, takes the value
  under the key \<open>exception\<close> for a text that is already formatted and appends it to the
  line by string concatenation. A value there that is no text makes the concatenation
  raise \<open>TypeError\<close>, and the event is not written.
\<close>

definition console_renderer :: "(string \<times> 'a logvalue) list \<Rightarrow> pyexc + unit" where
  "console_renderer event_dict =
     (case map_of event_dict ''exception'' of
        None \<Rightarrow> Inr ()
      | Some (LogStr text) \<Rightarrow> Inr ()
      | Some _ \<Rightarrow> Inl (Exception ''TypeError''))"

text \<open>\<open>log.warning(event, **kw)\<close>: the event is rendered, then written.\<close>

definition log_warning ::
  "string \<Rightarrow> (string \<times> 'a logvalue) list \<Rightarrow> ('a, 'v, 'w) cache_state
     \<Rightarrow> pyexc + ('a, 'v, 'w) cache_state" where
  "log_warning event kw s =
     (case console_renderer kw of
        Inl e \<Rightarrow> Inl e
      | Inr _ \<Rightarrow>
          Inr (s\<lparr>log := log s @ [\<lparr>ev_level = Warning, ev_event = event, ev_fields = kw\<rparr>]\<rparr>))"

text \<open>
  The keywords of the call \<open>log.warning("Not cached", func=func, args=args, kwargs=kwargs,
  exception=exception)\<close> of lines 424 and 441; \<open>args\<close> and \<open>kwargs\<close> are the two parts of \<open>a\<close>.
\<close>

definition not_cached_fields :: "'a \<Rightarrow> pyexc \<Rightarrow> (string \<times> 'a logvalue) list" where
  "not_cached_fields a exception =
     [(''func'', LogFunc), (''args'', LogObj a), (''kwargs'', LogObj a),
      (''exception'', LogExc exception)]"

text \<open>
  The truth value of the local variable \<open>key\<close> in \<open>if key and save\<close>: \<open>None\<close> and the empty
  string are false, every other string is true.
\<close>

fun truthy :: "string option \<Rightarrow> bool" where
  "truthy None = False"
| "truthy (Some k) = (k \<noteq> [])"

subsection \<open>Function objects\<close>

text \<open>
  A function object carries the flag that \<open>async def\<close> sets on its code, the attributes
  that \<open>functools.wraps\<close> reads (\<open>__module__\<close>, \<open>__name__\<close>, \<open>__qualname__\<close>, \<open>__doc__\<close>,
  \<open>__annotations__\<close>; a callable that is not a plain function may lack some of them), its
  \<open>__dict__\<close>, the attribute \<open>__wrapped__\<close> (kept apart from \<open>__dict__\<close> because its value
  is a function object of another type) and its body.
\<close>

datatype pyattr = PyNone | PyStr string | PyDict "(string \<times> string) list"

type_synonym ('a, 'v, 's) pycode = "'a \<Rightarrow> 's \<Rightarrow> (pyexc + 'v) \<times> 's"

record ('a, 'v, 's, 'x) pyfunction =
  co_coroutine :: bool
  attrs :: "string \<rightharpoonup> pyattr"
  fdict :: "string \<rightharpoonup> pyattr"
  wrapped :: "'x option"
  code :: "('a, 'v, 's) pycode"

text \<open>\<open>inspect.iscoroutinefunction\<close>: true exactly of a function defined with \<open>async def\<close>.\<close>

definition iscoroutinefunction :: "('a, 'v, 's, 'x) pyfunction \<Rightarrow> bool" where
  "iscoroutinefunction func = co_coroutine func"

text \<open>
  The calling convention. Calling a function made with \<open>def\<close> runs its body. Calling one
  made with \<open>async def\<close> runs nothing and returns a coroutine object; \<open>await\<close> (or
  \<open>asyncio.run\<close>) runs the body then. Awaiting a value that is no coroutine is a
  \<open>TypeError\<close>.
\<close>

datatype ('v, 's) pyresult =
    Value 'v
  | Coroutine "'s \<Rightarrow> (pyexc + 'v) \<times> 's"

definition call ::
  "('a, 'v, 's, 'x) pyfunction \<Rightarrow> 'a \<Rightarrow> 's \<Rightarrow> (pyexc + ('v, 's) pyresult) \<times> 's" where
  "call func a s =
     (if co_coroutine func then (Inr (Coroutine (code func a)), s)
      else (case code func a s of
              (Inl e, s') \<Rightarrow> (Inl e, s')
            | (Inr v, s') \<Rightarrow> (Inr (Value v), s')))"

fun await :: "('v, 's) pyresult \<Rightarrow> 's \<Rightarrow> (pyexc + 'v) \<times> 's" where
  "await (Coroutine c) s = c s"
| "await (Value v) s = (Inl (Exception ''TypeError''), s)"

text \<open>\<open>asyncio.run(func(*args, **kwargs))\<close>: the call, then the coroutine run to its end.\<close>

definition run_awaited ::
  "('a, 'v, 's, 'x) pyfunction \<Rightarrow> 'a \<Rightarrow> 's \<Rightarrow> (pyexc + 'v) \<times> 's" where
  "run_awaited func a s =
     (case call func a s of
        (Inl e, s') \<Rightarrow> (Inl e, s')
      | (Inr r, s') \<Rightarrow> await r s')"

subsection \<open>\<open>functools.wraps\<close>\<close>

text \<open>
  \<open>functools.update_wrapper(wrapper, wrapped)\<close> as the standard library defines it: for
  each name in \<open>WRAPPER_ASSIGNMENTS\<close>, the attribute is copied when \<open>wrapped\<close> has it (an
  \<open>AttributeError\<close> is passed over); the wrapper's \<open>__dict__\<close> is updated with the one of
  \<open>wrapped\<close>; \<open>__wrapped__\<close> is set last. The list is the one of Python 3.10 and 3.11;
  the properties below hold of every name in the list.
\<close>

definition WRAPPER_ASSIGNMENTS :: "string list" where
  "WRAPPER_ASSIGNMENTS =
     [''__module__'', ''__name__'', ''__qualname__'', ''__doc__'', ''__annotations__'']"

definition assign ::
  "(string \<rightharpoonup> pyattr) \<Rightarrow> string \<Rightarrow> (string \<rightharpoonup> pyattr) \<Rightarrow> (string \<rightharpoonup> pyattr)" where
  "assign src attr dst = (case src attr of None \<Rightarrow> dst | Some v \<Rightarrow> dst(attr \<mapsto> v))"

definition update_wrapper ::
  "('a, 'v, 's, ('b, 'u, 't, 'y) pyfunction) pyfunction \<Rightarrow> ('b, 'u, 't, 'y) pyfunction
     \<Rightarrow> ('a, 'v, 's, ('b, 'u, 't, 'y) pyfunction) pyfunction" where
  "update_wrapper wrapper_fn wrapped_fn =
     wrapper_fn
       \<lparr>attrs := fold (assign (attrs wrapped_fn)) WRAPPER_ASSIGNMENTS (attrs wrapper_fn),
        fdict := fdict wrapper_fn ++ fdict wrapped_fn,
        wrapped := Some wrapped_fn\<rparr>"

subsection \<open>The synchronous wrapper\<close>

text \<open>
  Lines 443 to 446: the call of \<open>func\<close>, the store under \<open>key\<close> and the return. An exception
  of \<open>func\<close> leaves the wrapper at line 443, before the store.
\<close>

definition call_store ::
  "('a, 'v, 'w) pycode \<Rightarrow> 'a \<Rightarrow> string option \<Rightarrow> bool \<Rightarrow> ('a, 'v, 'w) cache_state
     \<Rightarrow> (pyexc + 'v) \<times> ('a, 'v, 'w) cache_state" where
  "call_store func a key save s =
     (case func a (world s) of
        (Inl e, w') \<Rightarrow> (Inl e, s\<lparr>world := w'\<rparr>)
      | (Inr v, w') \<Rightarrow>
          (if truthy key \<and> save
           then (Inr v, s\<lparr>memo := (memo s)(the key \<mapsto> v), world := w'\<rparr>)
           else (Inr v, s\<lparr>world := w'\<rparr>)))"

text \<open>
  Lines 432 to 446. \<open>key\<close> starts as \<open>None\<close> and \<open>save\<close> as \<open>True\<close>. Inside \<open>try\<close>, the
  key is derived and looked up; a key found returns the stored value at once. An
  \<open>Exception\<close> raised there enters the handler, which calls the logger and then clears
  \<open>save\<close>; an exception that the logger raises inside the handler leaves the wrapper, as
  does an exception of the serializer that is no \<open>Exception\<close>.
\<close>

definition wrapper ::
  "('a \<Rightarrow> pyexc + string) \<Rightarrow> ('a, 'v, 'w) pycode
     \<Rightarrow> ('a, 'v, ('a, 'v, 'w) cache_state) pycode" where
  "wrapper encode func a s =
     (case encode a of
        Inr key \<Rightarrow>
          (case memo s key of
             Some v \<Rightarrow> (Inr v, s)
           | None \<Rightarrow> call_store func a (Some key) True s)
      | Inl exception \<Rightarrow>
          (if isinstance_Exception exception
           then (case log_warning ''Not cached'' (not_cached_fields a exception) s of
                   Inl e \<Rightarrow> (Inl e, s)
                 | Inr s' \<Rightarrow> call_store func a None False s')
           else (Inl exception, s)))"

subsection \<open>The asynchronous wrapper\<close>

text \<open>
  Lines 426 to 429: \<open>func(*args, **kwargs)\<close> makes the coroutine of \<open>func\<close>, which acts on
  the world, and \<open>await\<close> runs it to its end; then the store and the return.
\<close>

definition await_store ::
  "('a, 'v, 'w) pycode \<Rightarrow> 'a \<Rightarrow> string option \<Rightarrow> bool \<Rightarrow> ('a, 'v, 'w) cache_state
     \<Rightarrow> (pyexc + 'v) \<times> ('a, 'v, 'w) cache_state" where
  "await_store func a key save s =
     (case await (Coroutine (func a)) (world s) of
        (Inl e, w') \<Rightarrow> (Inl e, s\<lparr>world := w'\<rparr>)
      | (Inr v, w') \<Rightarrow>
          (if truthy key \<and> save
           then (Inr v, s\<lparr>memo := (memo s)(the key \<mapsto> v), world := w'\<rparr>)
           else (Inr v, s\<lparr>world := w'\<rparr>)))"

text \<open>Lines 415 to 429, the body that runs when the wrapper's coroutine is awaited.\<close>

definition async_wrapper ::
  "('a \<Rightarrow> pyexc + string) \<Rightarrow> ('a, 'v, 'w) pycode
     \<Rightarrow> ('a, 'v, ('a, 'v, 'w) cache_state) pycode" where
  "async_wrapper encode func a s =
     (case encode a of
        Inr key \<Rightarrow>
          (case memo s key of
             Some v \<Rightarrow> (Inr v, s)
           | None \<Rightarrow> await_store func a (Some key) True s)
      | Inl exception \<Rightarrow>
          (if isinstance_Exception exception
           then (case log_warning ''Not cached'' (not_cached_fields a exception) s of
                   Inl e \<Rightarrow> (Inl e, s)
                 | Inr s' \<Rightarrow> await_store func a None False s')
           else (Inl exception, s)))"

subsection \<open>\<open>cache\<close>\<close>

text \<open>
  The two function objects that the \<open>def\<close> and the \<open>async def\<close> statements of \<open>cache\<close>
  create, before \<open>functools.wraps(func)\<close> is applied to them.
\<close>

definition wrapper_attrs :: "string \<Rightarrow> (string \<rightharpoonup> pyattr)" where
  "wrapper_attrs doc =
     [''__module__'' \<mapsto> PyStr ''huti.functions'',
      ''__name__'' \<mapsto> PyStr ''wrapper'',
      ''__qualname__'' \<mapsto> PyStr ''cache.<locals>.wrapper'',
      ''__doc__'' \<mapsto> PyStr doc,
      ''__annotations__'' \<mapsto> PyDict []]"

definition def_wrapper ::
  "('a \<Rightarrow> pyexc + string) \<Rightarrow> ('a, 'v, 'w, 'x) pyfunction
     \<Rightarrow> ('a, 'v, ('a, 'v, 'w) cache_state, ('a, 'v, 'w, 'x) pyfunction) pyfunction" where
  "def_wrapper encode func =
     \<lparr>co_coroutine = False, attrs = wrapper_attrs ''Cache Wrapper.'', fdict = Map.empty,
      wrapped = None, code = wrapper encode (code func)\<rparr>"

definition async_def_wrapper ::
  "('a \<Rightarrow> pyexc + string) \<Rightarrow> ('a, 'v, 'w, 'x) pyfunction
     \<Rightarrow> ('a, 'v, ('a, 'v, 'w) cache_state, ('a, 'v, 'w, 'x) pyfunction) pyfunction" where
  "async_def_wrapper encode func =
     \<lparr>co_coroutine = True, attrs = wrapper_attrs ''Async Cache Wrapper.'', fdict = Map.empty,
      wrapped = None, code = async_wrapper encode (code func)\<rparr>"

text \<open>
  Lines 409 to 447. The state in which the wrapper is first called has the empty \<open>memo\<close>
  of line 409 (\<open>fresh\<close>).
\<close>

definition cache ::
  "('a \<Rightarrow> pyexc + string) \<Rightarrow> ('a, 'v, 'w, 'x) pyfunction
     \<Rightarrow> ('a, 'v, ('a, 'v, 'w) cache_state, ('a, 'v, 'w, 'x) pyfunction) pyfunction" where
  "cache encode func =
     (let coro = iscoroutinefunction func
      in if coro then update_wrapper (async_def_wrapper encode func) func
         else update_wrapper (def_wrapper encode func) func)"

definition fresh :: "'a log_event list \<Rightarrow> 'w \<Rightarrow> ('a, 'v, 'w) cache_state" where
  "fresh l w = \<lparr>memo = Map.empty, log = l, world = w\<rparr>"

subsection \<open>Sequences of calls\<close>

text \<open>
  The state after the calls \<open>F'(a1)\<close>, \<open>F'(a2)\<close>, ... made one after another, each to
  its end, whether it returns or raises.
\<close>

fun run_calls :: "('a, 'v, 's) pycode \<Rightarrow> 'a list \<Rightarrow> 's \<Rightarrow> 's" where
  "run_calls f [] s = s"
| "run_calls f (a # as) s = run_calls f as (snd (f a s))"

subsection \<open>Example callables and an example serializer\<close>

text \<open>
  The examples instantiate the theorems below. \<open>counter\<close> is the callable of the
  specification's section 8, which increments a counter and returns it; \<open>failing\<close> counts
  its executions and raises.

  An example argument is what the serializer reads: a number, \<open>None\<close>, a lambda (with its
  identity), a dict with its entries in insertion order, an object whose \<open>__getstate__\<close>
  raises \<open>ValueError\<close> and an object whose \<open>__getstate__\<close> calls \<open>sys.exit()\<close>. \<open>py_eq\<close> is
  Python's \<open>==\<close> on them: two dicts are equal when they hold the same entries, in any
  order (the keys of a dict are distinct).

  \<open>example_encode\<close> stands for a serializer with the traits of \<open>jsonpickle\<close> that matter
  here: it writes a number in unary, writes \<open>null\<close> for \<open>None\<close> and also for a lambda (a
  value it has no flattener for), writes the entries of a dict in their insertion order,
  and passes on what \<open>__getstate__\<close> raises.
\<close>

datatype pyarg =
    PyInt nat
  | PyNoneArg
  | PyLambda nat
  | PyDictArg "(string \<times> nat) list"
  | PyRaising
  | PyExiting

fun py_eq :: "pyarg \<Rightarrow> pyarg \<Rightarrow> bool" where
  "py_eq (PyDictArg xs) (PyDictArg ys) = (set xs = set ys)"
| "py_eq a b = (a = b)"

fun encode_items :: "(string \<times> nat) list \<Rightarrow> string" where
  "encode_items [] = []"
| "encode_items ((k, v) # kvs) = k @ '':'' @ replicate (Suc v) CHR ''1'' @ '','' @ encode_items kvs"

fun example_encode :: "pyarg \<Rightarrow> pyexc + string" where
  "example_encode (PyInt n) = Inr (replicate (Suc n) CHR ''1'')"
| "example_encode PyNoneArg = Inr ''null''"
| "example_encode (PyLambda _) = Inr ''null''"
| "example_encode (PyDictArg kvs) = Inr (''{'' @ encode_items kvs @ ''}'')"
| "example_encode PyRaising = Inl (Exception ''ValueError'')"
| "example_encode PyExiting = Inl (BaseException ''SystemExit'')"

definition counter :: "(pyarg, nat, nat, unit) pyfunction" where
  "counter =
     \<lparr>co_coroutine = False,
      attrs = [''__module__'' \<mapsto> PyStr ''__main__'', ''__name__'' \<mapsto> PyStr ''counter'',
               ''__qualname__'' \<mapsto> PyStr ''counter'', ''__doc__'' \<mapsto> PyNone,
               ''__annotations__'' \<mapsto> PyDict []],
      fdict = [''calls'' \<mapsto> PyStr ''counted''],
      wrapped = None,
      code = (\<lambda>a w. (Inr (Suc w), Suc w))\<rparr>"

definition async_counter :: "(pyarg, nat, nat, unit) pyfunction" where
  "async_counter = counter\<lparr>co_coroutine := True\<rparr>"


section \<open>Properties\<close>

lemma code_cache:
  "code (cache encode func) =
     (if iscoroutinefunction func then async_wrapper encode (code func)
      else wrapper encode (code func))"
  by (simp add: cache_def update_wrapper_def def_wrapper_def async_def_wrapper_def)

lemma co_coroutine_cache: "co_coroutine (cache encode func) = iscoroutinefunction func"
  by (simp add: cache_def update_wrapper_def def_wrapper_def async_def_wrapper_def)

lemma await_store_eq: "await_store func a key save s = call_store func a key save s"
  by (simp add: await_store_def call_store_def)

lemma async_wrapper_eq: "async_wrapper encode func a s = wrapper encode func a s"
  by (simp add: async_wrapper_def wrapper_def await_store_eq
        split: sum.split option.split)

subsection \<open>The logger call of the handler\<close>

text \<open>
  The handler passes the exception object itself under the key \<open>exception\<close>, so the call
  of lines 424 and 441 raises \<open>TypeError\<close> for every exception and writes nothing.
\<close>

lemma log_warning_not_cached:
  "log_warning ''Not cached'' (not_cached_fields a exception) s = Inl (Exception ''TypeError'')"
  by (simp add: log_warning_def console_renderer_def not_cached_fields_def)

subsection \<open>The steps of the wrappers\<close>

lemma call_store_return:
  "func a (world s) = (Inr v, w') \<Longrightarrow> k \<noteq> [] \<Longrightarrow>
   call_store func a (Some k) True s = (Inr v, s\<lparr>memo := (memo s)(k \<mapsto> v), world := w'\<rparr>)"
  by (simp add: call_store_def)


lemma wrapper_hit:
  "encode a = Inr k \<Longrightarrow> memo s k = Some v \<Longrightarrow> wrapper encode func a s = (Inr v, s)"
  by (simp add: wrapper_def)

lemma wrapper_miss_return:
  "encode a = Inr k \<Longrightarrow> k \<noteq> [] \<Longrightarrow> memo s k = None \<Longrightarrow> func a (world s) = (Inr v, w') \<Longrightarrow>
   wrapper encode func a s = (Inr v, s\<lparr>memo := (memo s)(k \<mapsto> v), world := w'\<rparr>)"
  by (simp add: wrapper_def call_store_return)


lemma wrapper_miss_run:
  "encode a = Inr k \<Longrightarrow> memo s k = None \<Longrightarrow>
   fst (wrapper encode func a s) = fst (func a (world s)) \<and>
   world (snd (wrapper encode func a s)) = snd (func a (world s)) \<and>
   log (snd (wrapper encode func a s)) = log s"
  by (simp add: wrapper_def call_store_def split: prod.split sum.split)

text \<open>
  When the serializer raises, the wrapper raises too and the state is the one before
  the call: \<open>func\<close> is not called on this path, whatever it is.
\<close>

lemma wrapper_key_failure:
  "encode a = Inl x \<Longrightarrow>
   wrapper encode func a s =
     (Inl (if isinstance_Exception x then Exception ''TypeError'' else x), s)"
  by (simp add: wrapper_def log_warning_not_cached)

lemma memo_call_store:
  "memo (snd (call_store func a key save s)) =
     (case fst (func a (world s)) of
        Inr v \<Rightarrow> if truthy key \<and> save then (memo s)(the key \<mapsto> v) else memo s
      | Inl e \<Rightarrow> memo s)"
  by (cases "func a (world s)"; cases "fst (func a (world s))")
     (simp_all add: call_store_def)

lemma memo_wrapper:
  "memo (snd (wrapper encode func a s)) =
     (case encode a of
        Inr k \<Rightarrow> (case memo s k of
                    None \<Rightarrow> (case fst (func a (world s)) of
                                Inr v \<Rightarrow> if k \<noteq> [] then (memo s)(k \<mapsto> v) else memo s
                              | Inl e \<Rightarrow> memo s)
                  | Some v \<Rightarrow> memo s)
      | Inl x \<Rightarrow> memo s)"
proof (cases "encode a")
  case (Inl x)
  then show ?thesis
    by (simp add: wrapper_key_failure)
next
  case (Inr k)
  then show ?thesis
    by (cases "memo s k") (simp_all add: wrapper_def memo_call_store split: sum.split)
qed

lemma memo_le_wrapper: "memo s \<subseteq>\<^sub>m memo (snd (wrapper encode func a s))"
  by (auto simp: memo_wrapper map_le_def split: sum.split option.split)

lemma call_cache_sync:
  "\<not> iscoroutinefunction func \<Longrightarrow>
   call (cache encode func) a s =
     (case wrapper encode (code func) a s of
        (Inl e, s') \<Rightarrow> (Inl e, s')
      | (Inr v, s') \<Rightarrow> (Inr (Value v), s'))"
  by (simp add: call_def code_cache co_coroutine_cache)

lemma run_awaited_cache_async:
  "iscoroutinefunction func \<Longrightarrow>
   run_awaited (cache encode func) a s = async_wrapper encode (code func) a s"
  by (simp add: run_awaited_def call_def code_cache co_coroutine_cache)

lemma call_cache_unset:
  "call (cache encode (func\<lparr>co_coroutine := False\<rparr>)) a s =
     map_prod (map_sum id Value) id (wrapper encode (code func) a s)"
  by (simp add: call_cache_sync iscoroutinefunction_def split: prod.split sum.split)

subsection \<open>The attributes that \<open>functools.wraps\<close> sets\<close>

lemma fold_assign:
  "fold (assign src) ns dst n =
     (if n \<in> set ns then (case src n of Some x \<Rightarrow> Some x | None \<Rightarrow> dst n) else dst n)"
  by (induction ns arbitrary: dst) (auto simp: assign_def split: option.splits)

lemma attrs_cache:
  "attrs (cache encode func) n =
     (if n \<in> set WRAPPER_ASSIGNMENTS
      then (case attrs func n of
              Some x \<Rightarrow> Some x
            | None \<Rightarrow> wrapper_attrs (if iscoroutinefunction func then ''Async Cache Wrapper.''
                                      else ''Cache Wrapper.'') n)
      else wrapper_attrs (if iscoroutinefunction func then ''Async Cache Wrapper.''
                          else ''Cache Wrapper.'') n)"
  by (simp add: cache_def update_wrapper_def def_wrapper_def async_def_wrapper_def fold_assign)

subsection \<open>The memo table over a sequence of calls\<close>

lemma memo_le_run_calls:
  "memo s \<subseteq>\<^sub>m memo (run_calls (wrapper encode func) as s)"
proof (induction as arbitrary: s)
  case Nil
  show ?case by simp
next
  case (Cons a as)
  have "memo s \<subseteq>\<^sub>m memo (snd (wrapper encode func a s))"
    by (rule memo_le_wrapper)
  also have "\<dots> \<subseteq>\<^sub>m memo (run_calls (wrapper encode func) as (snd (wrapper encode func a s)))"
    by (rule Cons.IH)
  finally show ?case by simp
qed

lemma run_calls_async:
  "run_calls (async_wrapper encode func) as s = run_calls (wrapper encode func) as s"
  by (induction as arbitrary: s) (simp_all add: async_wrapper_eq)

lemma stored_stays:
  assumes "memo s k = Some v"
  shows "memo (run_calls (wrapper encode func) as s) k = Some v"
  using memo_le_run_calls [of s encode func as] assms
  by (auto simp: map_le_def dom_def)

subsection \<open>C1: two calls with the same arguments execute the callable once\<close>

text \<open>
  Claim C1. Let \<open>func\<close> be a synchronous callable and \<open>a\<close> arguments whose serialization
  succeeds with the key \<open>k\<close>, not yet in the memo table, and let \<open>func\<close> return \<open>v\<close> on
  \<open>a\<close>. The first call of the wrapper that \<open>cache\<close> returns runs \<open>func\<close> (the world becomes
  the one \<open>func\<close> leaves), stores \<open>v\<close> under \<open>k\<close> and returns \<open>v\<close>. The second call returns
  \<open>v\<close> and leaves the whole state as it is: \<open>func\<close> is not run again. The condition
  \<open>k \<noteq> []\<close> is the test \<open>if key\<close> of line 444; a JSON text is never the empty string.
\<close>

theorem cache_twice_executes_once:
  assumes "\<not> iscoroutinefunction func"
    and "encode a = Inr k" and "k \<noteq> []"
    and "memo s k = None"
    and "code func a (world s) = (Inr v, w')"
  shows "call (cache encode func) a s =
           (Inr (Value v), s\<lparr>memo := (memo s)(k \<mapsto> v), world := w'\<rparr>) \<and>
         call (cache encode func) a (s\<lparr>memo := (memo s)(k \<mapsto> v), world := w'\<rparr>) =
           (Inr (Value v), s\<lparr>memo := (memo s)(k \<mapsto> v), world := w'\<rparr>)"
proof -
  let ?s1 = "s\<lparr>memo := (memo s)(k \<mapsto> v), world := w'\<rparr>"
  have first: "wrapper encode (code func) a s = (Inr v, ?s1)"
    using assms by (simp add: wrapper_miss_return)
  have "memo ?s1 k = Some v" by simp
  with assms(2) have second: "wrapper encode (code func) a ?s1 = (Inr v, ?s1)"
    by (rule wrapper_hit)
  from assms(1) first second show ?thesis
    by (simp add: call_cache_sync)
qed

text \<open>
  The witness is the callable that increments a counter and returns it: after two calls
  the counter is 1 and both calls return 1.
\<close>

theorem cache_twice_executes_once_witness:
  "\<not> iscoroutinefunction counter \<and>
   example_encode (PyInt 0) = Inr ''1'' \<and> ''1'' \<noteq> [] \<and>
   memo (fresh [] 0 :: (pyarg, nat, nat) cache_state) ''1'' = None \<and>
   code counter (PyInt 0) (world (fresh [] 0 :: (pyarg, nat, nat) cache_state)) = (Inr 1, 1) \<and>
   call (cache example_encode counter) (PyInt 0) (fresh [] 0) =
     (Inr (Value 1), \<lparr>memo = [''1'' \<mapsto> 1], log = [], world = 1\<rparr>) \<and>
   call (cache example_encode counter) (PyInt 0) \<lparr>memo = [''1'' \<mapsto> 1], log = [], world = 1\<rparr> =
     (Inr (Value 1), \<lparr>memo = [''1'' \<mapsto> 1], log = [], world = 1\<rparr>)"
  using cache_twice_executes_once
          [where func = counter and encode = example_encode and a = "PyInt 0"
             and k = "''1''" and s = "fresh [] 0" and v = 1 and w' = 1]
  by (simp add: fresh_def iscoroutinefunction_def counter_def)

subsection \<open>C2: a key that cannot be derived\<close>

text \<open>
  Claim C2 is what the handler of lines 423 to 425 and 440 to 442 sets out to do: log a
  warning, clear \<open>save\<close>, call \<open>func\<close> without caching. The code does not get there. With
  an argument whose serialization raises \<open>ValueError\<close>, the logger call inside the handler
  raises \<open>TypeError\<close>: that exception reaches the caller, \<open>func\<close> is not run (the counter
  stays 0) and no event is written. The synchronous and the asynchronous wrapper do the
  same.
\<close>

theorem key_failure_raises_in_handler:
  "example_encode PyRaising = Inl (Exception ''ValueError'') \<and>
   call (cache example_encode counter) PyRaising (fresh [] 0) =
     (Inl (Exception ''TypeError''), fresh [] 0) \<and>
   run_awaited (cache example_encode async_counter) PyRaising (fresh [] 0) =
     (Inl (Exception ''TypeError''), fresh [] 0)"
  by (simp add: call_cache_sync run_awaited_cache_async async_wrapper_eq wrapper_key_failure
        iscoroutinefunction_def counter_def async_counter_def)

subsection \<open>C3: an exception of the callable\<close>



subsection \<open>C7: a hit\<close>

text \<open>
  Claim C7. When the derived key is in the memo table, both wrappers return the stored
  value and the state after the call is the state before it: \<open>func\<close> has not run (the
  world is unchanged), the memo table is unchanged and nothing is logged.
\<close>

theorem hit_returns_stored:
  assumes "encode a = Inr k" and "memo s k = Some v"
  shows "wrapper encode func a s = (Inr v, s) \<and> async_wrapper encode func a s = (Inr v, s)"
  using assms by (simp add: wrapper_hit async_wrapper_eq)

text \<open>
  The witness: a table that holds 7 under the key of the number 0; the counter stays 0.
\<close>

theorem hit_returns_stored_witness:
  "example_encode (PyInt 0) = Inr ''1'' \<and>
   memo \<lparr>memo = [''1'' \<mapsto> 7], log = [], world = 0\<rparr> ''1'' = Some (7::nat) \<and>
   wrapper example_encode (code counter) (PyInt 0) \<lparr>memo = [''1'' \<mapsto> 7], log = [], world = 0\<rparr> =
     (Inr 7, \<lparr>memo = [''1'' \<mapsto> 7], log = [], world = 0\<rparr>) \<and>
   async_wrapper example_encode (code async_counter) (PyInt 0)
       \<lparr>memo = [''1'' \<mapsto> 7], log = [], world = 0\<rparr> =
     (Inr 7, \<lparr>memo = [''1'' \<mapsto> 7], log = [], world = 0\<rparr>)"
  using hit_returns_stored
          [where encode = example_encode and a = "PyInt 0" and k = "''1''" and v = 7
             and s = "\<lparr>memo = [''1'' \<mapsto> 7], log = [], world = 0\<rparr>" and func = "code counter"]
  by (simp add: async_counter_def counter_def wrapper_def async_wrapper_def)

subsection \<open>C4: the calling convention is chosen when \<open>cache\<close> wraps\<close>

text \<open>
  Claim C4. \<open>cache\<close> reads \<open>inspect.iscoroutinefunction(func)\<close> once (line 412) and returns
  one of two function objects; neither body looks at the flag again. The wrapper is a
  coroutine function exactly when \<open>func\<close> is one. Calling the wrapper of an asynchronous
  \<open>func\<close> runs nothing: it returns the coroutine of the asynchronous body and leaves the
  state as it is, and awaiting it runs that body. Calling the wrapper of a synchronous
  \<open>func\<close> runs the synchronous body and returns its value, which cannot be awaited.
\<close>

theorem cache_keeps_calling_convention:
  "iscoroutinefunction (cache encode func) = iscoroutinefunction func \<and>
   call (cache encode func) a s =
     (if iscoroutinefunction func
      then (Inr (Coroutine (async_wrapper encode (code func) a)), s)
      else (case wrapper encode (code func) a s of
              (Inl e, s') \<Rightarrow> (Inl e, s')
            | (Inr v, s') \<Rightarrow> (Inr (Value v), s'))) \<and>
   run_awaited (cache encode func) a s =
     (if iscoroutinefunction func
      then async_wrapper encode (code func) a s
      else (case wrapper encode (code func) a s of
              (Inl e, s') \<Rightarrow> (Inl e, s')
            | (Inr v, s') \<Rightarrow> (Inl (Exception ''TypeError''), s')))"
  by (simp add: iscoroutinefunction_def run_awaited_def call_def code_cache co_coroutine_cache
        split: prod.split sum.split)

subsection \<open>C5: the asynchronous wrapper behaves as the synchronous one\<close>

text \<open>
  Claim C5. Let \<open>func\<close> be asynchronous, let the arguments \<open>a\<close> serialize to the key \<open>k\<close>, not
  yet in the memo table, and let \<open>func\<close> return \<open>v\<close> on \<open>a\<close>. Two awaited calls of the wrapper,
  one after the other, both return \<open>v\<close>; the first runs \<open>func\<close> and stores \<open>v\<close>, the second
  leaves the state as it is. For all arguments \<open>b\<close> and every state \<open>t\<close>, an awaited call of
  the wrapper gives the result and the state that a call of the wrapper of the same body
  declared with \<open>def\<close> gives.
\<close>

theorem async_wrapper_same_semantics:
  assumes "iscoroutinefunction func"
    and "encode a = Inr k" and "k \<noteq> []"
    and "memo s k = None"
    and "code func a (world s) = (Inr v, w')"
  shows "run_awaited (cache encode func) a s =
           (Inr v, s\<lparr>memo := (memo s)(k \<mapsto> v), world := w'\<rparr>) \<and>
         run_awaited (cache encode func) a (s\<lparr>memo := (memo s)(k \<mapsto> v), world := w'\<rparr>) =
           (Inr v, s\<lparr>memo := (memo s)(k \<mapsto> v), world := w'\<rparr>) \<and>
         call (cache encode (func\<lparr>co_coroutine := False\<rparr>)) b t =
           map_prod (map_sum id Value) id (run_awaited (cache encode func) b t)"
proof -
  let ?s1 = "s\<lparr>memo := (memo s)(k \<mapsto> v), world := w'\<rparr>"
  have run: "run_awaited (cache encode func) b t = wrapper encode (code func) b t" for b t
    using assms(1) by (simp add: run_awaited_cache_async async_wrapper_eq)
  have first: "wrapper encode (code func) a s = (Inr v, ?s1)"
    using assms(2-5) by (rule wrapper_miss_return)
  have "memo ?s1 k = Some v" by simp
  with assms(2) have second: "wrapper encode (code func) a ?s1 = (Inr v, ?s1)"
    by (rule wrapper_hit)
  show ?thesis
    by (simp only: run first second call_cache_unset simp_thms)
qed

text \<open>
  The witness: the counter declared with \<open>async def\<close>; after two awaited calls it is 1.
\<close>

theorem async_wrapper_same_semantics_witness:
  "iscoroutinefunction async_counter \<and>
   example_encode (PyInt 0) = Inr ''1'' \<and> ''1'' \<noteq> [] \<and>
   memo (fresh [] 0 :: (pyarg, nat, nat) cache_state) ''1'' = None \<and>
   code async_counter (PyInt 0) (world (fresh [] 0 :: (pyarg, nat, nat) cache_state)) =
     (Inr 1, 1) \<and>
   run_awaited (cache example_encode async_counter) (PyInt 0) (fresh [] 0) =
     (Inr 1, \<lparr>memo = [''1'' \<mapsto> 1], log = [], world = 1\<rparr>) \<and>
   run_awaited (cache example_encode async_counter) (PyInt 0)
       \<lparr>memo = [''1'' \<mapsto> 1], log = [], world = 1\<rparr> =
     (Inr 1, \<lparr>memo = [''1'' \<mapsto> 1], log = [], world = 1\<rparr>) \<and>
   call (cache example_encode (async_counter\<lparr>co_coroutine := False\<rparr>)) (PyInt 0) (fresh [] 0) =
     (Inr (Value 1), \<lparr>memo = [''1'' \<mapsto> 1], log = [], world = 1\<rparr>)"
  using async_wrapper_same_semantics
          [where func = async_counter and encode = example_encode and a = "PyInt 0"
             and k = "''1''" and s = "fresh [] 0" and v = 1 and w' = 1
             and b = "PyInt 0" and t = "fresh [] 0"]
  by (simp add: fresh_def iscoroutinefunction_def async_counter_def counter_def)

subsection \<open>C10: the wrapper carries the attributes of the callable\<close>

text \<open>
  Claim C10. The wrapper's \<open>__wrapped__\<close> is \<open>func\<close> itself; every attribute among
  \<open>__module__\<close>, \<open>__name__\<close>, \<open>__qualname__\<close>, \<open>__doc__\<close> and \<open>__annotations__\<close> that \<open>func\<close> has
  is an attribute of the wrapper with the same value; every entry of the \<open>__dict__\<close> of
  \<open>func\<close> is an entry of the \<open>__dict__\<close> of the wrapper. \<open>cache\<close> is a function of \<open>func\<close>:
  wrapping does not change \<open>func\<close>.
\<close>

theorem cache_wraps_func:
  "wrapped (cache encode func) = Some func \<and>
   (\<forall>n \<in> set WRAPPER_ASSIGNMENTS. \<forall>x. attrs func n = Some x \<longrightarrow>
        attrs (cache encode func) n = Some x) \<and>
   fdict func \<subseteq>\<^sub>m fdict (cache encode func)"
proof (intro conjI)
  show "wrapped (cache encode func) = Some func"
    by (simp add: cache_def update_wrapper_def)
  show "\<forall>n \<in> set WRAPPER_ASSIGNMENTS. \<forall>x. attrs func n = Some x \<longrightarrow>
          attrs (cache encode func) n = Some x"
    by (simp add: attrs_cache)
  show "fdict func \<subseteq>\<^sub>m fdict (cache encode func)"
    by (simp add: cache_def update_wrapper_def)
qed

text \<open>
  The witness: the wrapper of \<open>counter\<close> is named \<open>counter\<close>, its docstring is \<open>None\<close> as
  the one of \<open>counter\<close>, not the text \<open>Cache Wrapper.\<close> of the source.
\<close>

theorem cache_wraps_func_witness:
  "''__name__'' \<in> set WRAPPER_ASSIGNMENTS \<and> ''__doc__'' \<in> set WRAPPER_ASSIGNMENTS \<and>
   attrs counter ''__name__'' = Some (PyStr ''counter'') \<and>
   attrs counter ''__doc__'' = Some PyNone \<and>
   wrapped (cache example_encode counter) = Some counter \<and>
   attrs (cache example_encode counter) ''__name__'' = Some (PyStr ''counter'') \<and>
   attrs (cache example_encode counter) ''__doc__'' = Some PyNone \<and>
   fdict (cache example_encode counter) ''calls'' = Some (PyStr ''counted'')"
proof -
  have n: "''__name__'' \<in> set WRAPPER_ASSIGNMENTS" "''__doc__'' \<in> set WRAPPER_ASSIGNMENTS"
    by (simp_all add: WRAPPER_ASSIGNMENTS_def)
  have a: "attrs counter ''__name__'' = Some (PyStr ''counter'')"
    "attrs counter ''__doc__'' = Some PyNone"
    "fdict counter ''calls'' = Some (PyStr ''counted'')"
    by (simp_all add: counter_def)
  note t = cache_wraps_func [of example_encode counter]
  from t have w: "wrapped (cache example_encode counter) = Some counter" by blast
  from t n a have "attrs (cache example_encode counter) ''__name__'' = Some (PyStr ''counter'')"
    "attrs (cache example_encode counter) ''__doc__'' = Some PyNone"
    by blast+
  moreover from t a have "fdict (cache example_encode counter) ''calls'' = Some (PyStr ''counted'')"
    by (auto simp: map_le_def dom_def)
  ultimately show ?thesis using n a w by simp
qed

subsection \<open>C6: the key decides between hit and miss\<close>

text \<open>
  Claim C6, as stated, fails in both halves: the wrapper compares keys, never arguments
  (line 438), and the key is the text the serializer writes. Unequal arguments written as
  one text share one entry: with \<open>null\<close> written for \<open>None\<close> and for a lambda, the call with
  a lambda after the call with \<open>None\<close> is a hit, it returns the value stored for \<open>None\<close> and
  the callable is not run (the counter stays 1). Equal arguments written as two texts
  have two entries: two dicts with the same entries in another insertion order are equal
  in Python, their keys differ and the callable runs for each of them (the counter
  reaches 2).
\<close>

theorem equality_does_not_decide_counterexample:
  "\<not> py_eq PyNoneArg (PyLambda 0) \<and>
   call (cache example_encode counter) PyNoneArg (fresh [] 0) =
     (Inr (Value 1), \<lparr>memo = [''null'' \<mapsto> 1], log = [], world = 1\<rparr>) \<and>
   call (cache example_encode counter) (PyLambda 0) \<lparr>memo = [''null'' \<mapsto> 1], log = [], world = 1\<rparr> =
     (Inr (Value 1), \<lparr>memo = [''null'' \<mapsto> 1], log = [], world = 1\<rparr>) \<and>
   py_eq (PyDictArg [(''a'', 0), (''b'', 1)]) (PyDictArg [(''b'', 1), (''a'', 0)]) \<and>
   call (cache example_encode counter) (PyDictArg [(''a'', 0), (''b'', 1)]) (fresh [] 0) =
     (Inr (Value 1), \<lparr>memo = [''{a:1,b:11,}'' \<mapsto> 1], log = [], world = 1\<rparr>) \<and>
   call (cache example_encode counter) (PyDictArg [(''b'', 1), (''a'', 0)])
       \<lparr>memo = [''{a:1,b:11,}'' \<mapsto> 1], log = [], world = 1\<rparr> =
     (Inr (Value 2),
      \<lparr>memo = [''{a:1,b:11,}'' \<mapsto> 1, ''{b:11,a:1,}'' \<mapsto> 2], log = [], world = 2\<rparr>)"
  by (simp add: call_cache_sync iscoroutinefunction_def counter_def wrapper_def call_store_def
        fresh_def insert_commute numeral_2_eq_2)

text \<open>
  Claim C6, amended. Let \<open>a1\<close> and \<open>a2\<close> serialize to the keys \<open>k1\<close> and \<open>k2\<close>, both absent from
  the memo table. When the keys are equal and \<open>func\<close> returns \<open>v\<close> on \<open>a1\<close>, the call with \<open>a1\<close>
  runs \<open>func\<close> and stores \<open>v\<close>, and the call with \<open>a2\<close> after it is a hit: it returns \<open>v\<close> and
  leaves the state as it is. When the keys differ, each of the two calls runs \<open>func\<close> on
  its own arguments: its result and its effect on the world are those of \<open>func\<close>, and
  nothing is logged. Nothing is said of which arguments have equal keys: that is the
  serializer's matter.
\<close>

theorem keys_decide_hit_or_miss:
  assumes "encode a1 = Inr k1" and "encode a2 = Inr k2"
    and "memo s k1 = None" and "memo s k2 = None"
  shows "(k1 = k2 \<longrightarrow> k1 \<noteq> [] \<longrightarrow> (\<forall>v w'. func a1 (world s) = (Inr v, w') \<longrightarrow>
            wrapper encode func a1 s =
              (Inr v, s\<lparr>memo := (memo s)(k1 \<mapsto> v), world := w'\<rparr>) \<and>
            wrapper encode func a2 (s\<lparr>memo := (memo s)(k1 \<mapsto> v), world := w'\<rparr>) =
              (Inr v, s\<lparr>memo := (memo s)(k1 \<mapsto> v), world := w'\<rparr>))) \<and>
         (k1 \<noteq> k2 \<longrightarrow>
            (let r1 = wrapper encode func a1 s; r2 = wrapper encode func a2 (snd r1)
             in fst r1 = fst (func a1 (world s)) \<and> world (snd r1) = snd (func a1 (world s)) \<and>
                fst r2 = fst (func a2 (world (snd r1))) \<and>
                world (snd r2) = snd (func a2 (world (snd r1))) \<and>
                log (snd r1) = log s \<and> log (snd r2) = log s))"
proof (intro conjI impI allI)
  fix v w'
  assume same: "k1 = k2" and "k1 \<noteq> []" and "func a1 (world s) = (Inr v, w')"
  with assms(1,3)
  show "wrapper encode func a1 s = (Inr v, s\<lparr>memo := (memo s)(k1 \<mapsto> v), world := w'\<rparr>)"
    by (simp add: wrapper_miss_return)
  have "memo (s\<lparr>memo := (memo s)(k1 \<mapsto> v), world := w'\<rparr>) k2 = Some v"
    using same by simp
  with assms(2)
  show "wrapper encode func a2 (s\<lparr>memo := (memo s)(k1 \<mapsto> v), world := w'\<rparr>) =
      (Inr v, s\<lparr>memo := (memo s)(k1 \<mapsto> v), world := w'\<rparr>)"
    by (rule wrapper_hit)
next
  assume ne: "k1 \<noteq> k2"
  let ?r1 = "wrapper encode func a1 s"
  have run1: "fst ?r1 = fst (func a1 (world s)) \<and> world (snd ?r1) = snd (func a1 (world s)) \<and>
      log (snd ?r1) = log s"
    using assms(1,3) by (simp add: wrapper_miss_run)
  have "memo (snd ?r1) k2 = None"
    using assms ne by (simp add: memo_wrapper split: sum.split)
  with assms(2)
  have run2: "fst (wrapper encode func a2 (snd ?r1)) = fst (func a2 (world (snd ?r1))) \<and>
      world (snd (wrapper encode func a2 (snd ?r1))) = snd (func a2 (world (snd ?r1))) \<and>
      log (snd (wrapper encode func a2 (snd ?r1))) = log (snd ?r1)"
    by (simp add: wrapper_miss_run)
  from run1 run2
  show "let r1 = wrapper encode func a1 s; r2 = wrapper encode func a2 (snd r1)
        in fst r1 = fst (func a1 (world s)) \<and> world (snd r1) = snd (func a1 (world s)) \<and>
           fst r2 = fst (func a2 (world (snd r1))) \<and>
           world (snd r2) = snd (func a2 (world (snd r1))) \<and>
           log (snd r1) = log s \<and> log (snd r2) = log s"
    by (simp add: Let_def)
qed

text \<open>
  The witness: \<open>None\<close> and then a lambda, which have one key (one execution); the number 0
  and then the number 1, which have two keys (two executions).
\<close>

theorem keys_decide_hit_or_miss_witness:
  "example_encode PyNoneArg = Inr ''null'' \<and> example_encode (PyLambda 0) = Inr ''null'' \<and>
   example_encode (PyInt 0) = Inr ''1'' \<and> example_encode (PyInt 1) = Inr ''11'' \<and>
   memo (fresh [] 0 :: (pyarg, nat, nat) cache_state) ''null'' = None \<and>
   memo (fresh [] 0 :: (pyarg, nat, nat) cache_state) ''1'' = None \<and>
   memo (fresh [] 0 :: (pyarg, nat, nat) cache_state) ''11'' = None \<and>
   ''null'' \<noteq> [] \<and> ''1'' \<noteq> ''11'' \<and>
   code counter PyNoneArg (world (fresh [] 0 :: (pyarg, nat, nat) cache_state)) = (Inr 1, 1) \<and>
   wrapper example_encode (code counter) PyNoneArg (fresh [] 0) =
     (Inr 1, \<lparr>memo = [''null'' \<mapsto> 1], log = [], world = 1\<rparr>) \<and>
   wrapper example_encode (code counter) (PyLambda 0)
       \<lparr>memo = [''null'' \<mapsto> 1], log = [], world = 1\<rparr> =
     (Inr 1, \<lparr>memo = [''null'' \<mapsto> 1], log = [], world = 1\<rparr>) \<and>
   fst (wrapper example_encode (code counter) (PyInt 0) (fresh [] 0)) = Inr 1 \<and>
   world (snd (wrapper example_encode (code counter) (PyInt 0) (fresh [] 0))) = 1 \<and>
   fst (wrapper example_encode (code counter) (PyInt 1)
          (snd (wrapper example_encode (code counter) (PyInt 0) (fresh [] 0)))) = Inr 2 \<and>
   world (snd (wrapper example_encode (code counter) (PyInt 1)
          (snd (wrapper example_encode (code counter) (PyInt 0) (fresh [] 0))))) = 2"
proof -
  let ?s0 = "fresh [] 0 :: (pyarg, nat, nat) cache_state"
  have e: "example_encode PyNoneArg = Inr ''null''" "example_encode (PyLambda 0) = Inr ''null''"
    "example_encode (PyInt 0) = Inr ''1''" "example_encode (PyInt 1) = Inr ''11''"
    by simp_all
  have m: "memo ?s0 ''null'' = None" "memo ?s0 ''1'' = None" "memo ?s0 ''11'' = None"
    by (simp_all add: fresh_def)
  have k: "''null'' \<noteq> []" "''1'' \<noteq> ''11''"
    by simp_all
  have f: "code counter PyNoneArg (world ?s0) = (Inr 1, 1)"
    by (simp add: fresh_def counter_def)
  from keys_decide_hit_or_miss
         [where encode = example_encode and func = "code counter" and s = ?s0
            and ?a1.0 = PyNoneArg and ?a2.0 = "PyLambda 0"
            and ?k1.0 = "''null''" and ?k2.0 = "''null''",
          OF e(1) e(2) m(1) m(1)] k(1) f
  have same: "wrapper example_encode (code counter) PyNoneArg ?s0 =
        (Inr 1, ?s0\<lparr>memo := (memo ?s0)(''null'' \<mapsto> 1), world := 1\<rparr>) \<and>
      wrapper example_encode (code counter) (PyLambda 0)
          (?s0\<lparr>memo := (memo ?s0)(''null'' \<mapsto> 1), world := 1\<rparr>) =
        (Inr 1, ?s0\<lparr>memo := (memo ?s0)(''null'' \<mapsto> 1), world := 1\<rparr>)"
    by blast
  from keys_decide_hit_or_miss
         [where encode = example_encode and func = "code counter" and s = ?s0
            and ?a1.0 = "PyInt 0" and ?a2.0 = "PyInt 1" and ?k1.0 = "''1''" and ?k2.0 = "''11''",
          OF e(3) e(4) m(2) m(3)] k(2)
  have "let r1 = wrapper example_encode (code counter) (PyInt 0) ?s0;
            r2 = wrapper example_encode (code counter) (PyInt 1) (snd r1)
        in fst r1 = fst (code counter (PyInt 0) (world ?s0)) \<and>
           world (snd r1) = snd (code counter (PyInt 0) (world ?s0)) \<and>
           fst r2 = fst (code counter (PyInt 1) (world (snd r1))) \<and>
           world (snd r2) = snd (code counter (PyInt 1) (world (snd r1))) \<and>
           log (snd r1) = log ?s0 \<and> log (snd r2) = log ?s0"
    by blast
  then have other:
    "fst (wrapper example_encode (code counter) (PyInt 0) ?s0) = Inr 1"
    "world (snd (wrapper example_encode (code counter) (PyInt 0) ?s0)) = 1"
    "fst (wrapper example_encode (code counter) (PyInt 1)
          (snd (wrapper example_encode (code counter) (PyInt 0) ?s0))) = Inr 2"
    "world (snd (wrapper example_encode (code counter) (PyInt 1)
          (snd (wrapper example_encode (code counter) (PyInt 0) ?s0)))) = 2"
    by (simp_all add: Let_def counter_def fresh_def)
  from same have same':
    "wrapper example_encode (code counter) PyNoneArg ?s0 =
       (Inr 1, \<lparr>memo = [''null'' \<mapsto> 1], log = [], world = 1\<rparr>)"
    "wrapper example_encode (code counter) (PyLambda 0)
        \<lparr>memo = [''null'' \<mapsto> 1], log = [], world = 1\<rparr> =
       (Inr 1, \<lparr>memo = [''null'' \<mapsto> 1], log = [], world = 1\<rparr>)"
    by (simp_all add: fresh_def)
  from e m k f same' other show ?thesis by simp
qed

subsection \<open>C8: the memo table only grows\<close>

text \<open>
  Claim C8. Over every sequence of calls made one after another, with any arguments,
  returning or raising, each entry of the memo table stays in the table with its value,
  for both wrappers. So a value \<open>v\<close> stored under \<open>k\<close> is what every later call that
  derives \<open>k\<close> returns, and that call leaves the state as it is.
\<close>

theorem memo_only_grows:
  "memo s \<subseteq>\<^sub>m memo (run_calls (wrapper encode func) as s) \<and>
   memo s \<subseteq>\<^sub>m memo (run_calls (async_wrapper encode func) as s) \<and>
   (\<forall>k v a. memo s k = Some v \<longrightarrow> encode a = Inr k \<longrightarrow>
      wrapper encode func a (run_calls (wrapper encode func) as s) =
        (Inr v, run_calls (wrapper encode func) as s) \<and>
      async_wrapper encode func a (run_calls (async_wrapper encode func) as s) =
        (Inr v, run_calls (async_wrapper encode func) as s))"
proof (intro conjI allI impI)
  show le: "memo s \<subseteq>\<^sub>m memo (run_calls (wrapper encode func) as s)"
    by (rule memo_le_run_calls)
  then show "memo s \<subseteq>\<^sub>m memo (run_calls (async_wrapper encode func) as s)"
    by (simp only: run_calls_async)
next
  fix k v a
  assume stored: "memo s k = Some v" and key: "encode a = Inr k"
  from stored have "memo (run_calls (wrapper encode func) as s) k = Some v"
    by (rule stored_stays)
  with key
  show hit: "wrapper encode func a (run_calls (wrapper encode func) as s) =
      (Inr v, run_calls (wrapper encode func) as s)"
    by (rule wrapper_hit)
  then show "async_wrapper encode func a (run_calls (async_wrapper encode func) as s) =
      (Inr v, run_calls (async_wrapper encode func) as s)"
    by (simp only: run_calls_async async_wrapper_eq)
qed

text \<open>
  The witness: four calls (a new number, an object that is not serialized, the stored
  number, \<open>None\<close>) keep the entry 7 and add two entries.
\<close>

theorem memo_only_grows_witness:
  "memo \<lparr>memo = [''1'' \<mapsto> 7], log = [], world = 0\<rparr> ''1'' = Some (7::nat) \<and>
   example_encode (PyInt 0) = Inr ''1'' \<and>
   run_calls (wrapper example_encode (code counter)) [PyInt 1, PyRaising, PyInt 0, PyNoneArg]
     \<lparr>memo = [''1'' \<mapsto> 7], log = [], world = 0\<rparr> =
     \<lparr>memo = [''1'' \<mapsto> 7, ''11'' \<mapsto> 1, ''null'' \<mapsto> 2], log = [], world = 2\<rparr> \<and>
   [''1'' \<mapsto> 7] \<subseteq>\<^sub>m [''1'' \<mapsto> 7, ''11'' \<mapsto> 1, ''null'' \<mapsto> (2::nat)] \<and>
   fst (wrapper example_encode (code counter) (PyInt 0)
     (run_calls (wrapper example_encode (code counter)) [PyInt 1, PyRaising, PyInt 0, PyNoneArg]
        \<lparr>memo = [''1'' \<mapsto> 7], log = [], world = 0\<rparr>)) = Inr 7"
proof -
  let ?s = "\<lparr>memo = [''1'' \<mapsto> 7], log = [], world = 0\<rparr> :: (pyarg, nat, nat) cache_state"
  let ?as = "[PyInt 1, PyRaising, PyInt 0, PyNoneArg]"
  have run: "run_calls (wrapper example_encode (code counter)) ?as ?s =
     \<lparr>memo = [''1'' \<mapsto> 7, ''11'' \<mapsto> 1, ''null'' \<mapsto> 2], log = [], world = 2\<rparr>"
    by (simp add: wrapper_def call_store_def log_warning_not_cached counter_def numeral_2_eq_2)
  note t = memo_only_grows [of ?s example_encode "code counter" ?as]
  have le: "[''1'' \<mapsto> 7] \<subseteq>\<^sub>m [''1'' \<mapsto> 7, ''11'' \<mapsto> 1, ''null'' \<mapsto> (2::nat)]"
    using t run by simp
  have m: "memo ?s ''1'' = Some 7" and e: "example_encode (PyInt 0) = Inr ''1''"
    by simp_all
  from t m e have "wrapper example_encode (code counter) (PyInt 0)
       (run_calls (wrapper example_encode (code counter)) ?as ?s) =
     (Inr 7, run_calls (wrapper example_encode (code counter)) ?as ?s)"
    by blast
  with run le m e show ?thesis by simp
qed

subsection \<open>C9: a hit returns the stored object itself\<close>

text \<open>
  Claim C9. Values of type \<open>'v\<close> are references to objects. On the miss, the wrapper
  returns the reference \<open>v\<close> that \<open>func\<close> returned and stores that reference under the key:
  the state after the miss is the state before it with the entry \<open>k \<mapsto> v\<close> and the world
  that \<open>func\<close> left. After any calls \<open>as\<close> made in between, the entry under \<open>k\<close> is still \<open>v\<close>, and
  the call with the same arguments returns that stored reference and leaves the state as
  it is: \<open>func\<close> is not run and no object is made or changed. This holds of both wrappers.
\<close>

theorem hit_returns_same_object:
  assumes "encode a = Inr k" and "k \<noteq> []"
    and "memo s k = None"
    and "func a (world s) = (Inr v, w')"
  shows "(let s1 = s\<lparr>memo := (memo s)(k \<mapsto> v), world := w'\<rparr>;
              s2 = run_calls (wrapper encode func) as s1
          in wrapper encode func a s = (Inr v, s1) \<and> memo s2 k = Some v \<and>
             wrapper encode func a s2 = (Inr v, s2)) \<and>
         (let s1 = s\<lparr>memo := (memo s)(k \<mapsto> v), world := w'\<rparr>;
              s2 = run_calls (async_wrapper encode func) as s1
          in async_wrapper encode func a s = (Inr v, s1) \<and> memo s2 k = Some v \<and>
             async_wrapper encode func a s2 = (Inr v, s2))"
proof -
  let ?s1 = "s\<lparr>memo := (memo s)(k \<mapsto> v), world := w'\<rparr>"
  let ?s2 = "run_calls (wrapper encode func) as ?s1"
  have first: "wrapper encode func a s = (Inr v, ?s1)"
    using assms by (rule wrapper_miss_return)
  have "memo ?s1 k = Some v" by simp
  then have stored: "memo ?s2 k = Some v" by (rule stored_stays)
  with assms(1) have hit: "wrapper encode func a ?s2 = (Inr v, ?s2)"
    by (rule wrapper_hit)
  from first stored hit show ?thesis
    by (simp only: Let_def async_wrapper_eq run_calls_async simp_thms)
qed

text \<open>
  The witness: the counter returns 1 on the first call; after two more calls, one of
  them a miss that makes the counter 2, the call with the first arguments returns the
  stored 1.
\<close>

theorem hit_returns_same_object_witness:
  "example_encode (PyInt 0) = Inr ''1'' \<and> ''1'' \<noteq> [] \<and>
   memo (fresh [] 0 :: (pyarg, nat, nat) cache_state) ''1'' = None \<and>
   code counter (PyInt 0) (world (fresh [] 0 :: (pyarg, nat, nat) cache_state)) = (Inr 1, 1) \<and>
   wrapper example_encode (code counter) (PyInt 0) (fresh [] 0) =
     (Inr 1, \<lparr>memo = [''1'' \<mapsto> 1], log = [], world = 1\<rparr>) \<and>
   run_calls (wrapper example_encode (code counter)) [PyInt 1, PyInt 0]
       \<lparr>memo = [''1'' \<mapsto> 1], log = [], world = 1\<rparr> =
     \<lparr>memo = [''1'' \<mapsto> 1, ''11'' \<mapsto> 2], log = [], world = 2\<rparr> \<and>
   wrapper example_encode (code counter) (PyInt 0)
       \<lparr>memo = [''1'' \<mapsto> 1, ''11'' \<mapsto> 2], log = [], world = 2\<rparr> =
     (Inr 1, \<lparr>memo = [''1'' \<mapsto> 1, ''11'' \<mapsto> 2], log = [], world = 2\<rparr>)"
proof -
  let ?s0 = "fresh [] 0 :: (pyarg, nat, nat) cache_state"
  let ?s1 = "\<lparr>memo = [''1'' \<mapsto> 1], log = [], world = 1\<rparr> :: (pyarg, nat, nat) cache_state"
  have h1: "example_encode (PyInt 0) = Inr ''1''" and h2: "''1'' \<noteq> []"
    and h3: "memo ?s0 ''1'' = None"
    and h4: "code counter (PyInt 0) (world ?s0) = (Inr 1, 1)"
    by (simp_all add: fresh_def counter_def)
  have s1: "?s0\<lparr>memo := (memo ?s0)(''1'' \<mapsto> 1), world := 1\<rparr> = ?s1"
    by (simp add: fresh_def)
  have run: "run_calls (wrapper example_encode (code counter)) [PyInt 1, PyInt 0] ?s1 =
      \<lparr>memo = [''1'' \<mapsto> 1, ''11'' \<mapsto> 2], log = [], world = 2\<rparr>"
    by (simp add: wrapper_def call_store_def counter_def numeral_2_eq_2)
  from hit_returns_same_object
          [where encode = example_encode and a = "PyInt 0" and k = "''1''" and s = ?s0
             and func = "code counter" and v = 1 and w' = 1 and as = "[PyInt 1, PyInt 0]",
           OF h1 h2 h3 h4]
  have "let s1 = ?s0\<lparr>memo := (memo ?s0)(''1'' \<mapsto> 1), world := 1\<rparr>;
            s2 = run_calls (wrapper example_encode (code counter)) [PyInt 1, PyInt 0] s1
        in wrapper example_encode (code counter) (PyInt 0) ?s0 = (Inr 1, s1) \<and>
           memo s2 ''1'' = Some 1 \<and>
           wrapper example_encode (code counter) (PyInt 0) s2 = (Inr 1, s2)"
    by (rule conjunct1)
  then have "wrapper example_encode (code counter) (PyInt 0) ?s0 = (Inr 1, ?s1) \<and>
      wrapper example_encode (code counter) (PyInt 0)
          \<lparr>memo = [''1'' \<mapsto> 1, ''11'' \<mapsto> 2], log = [], world = 2\<rparr> =
        (Inr 1, \<lparr>memo = [''1'' \<mapsto> 1, ''11'' \<mapsto> 2], log = [], world = 2\<rparr>)"
    unfolding Let_def s1 run by blast
  with h1 h2 h3 h4 run show ?thesis by simp
qed

end
